theory Spec2Isabelle
  imports Main "HOL-Library.Word" "HOL-Library.Sublist"
begin

section \<open>Strings and C library helpers\<close>

text \<open>
  A \<open>std::string\<close> is a list of bytes.  \<open>c_str\<close> is what a C function sees of it: the
  bytes before the first NUL.  \<open>str_find\<close> is \<open>std::string::find\<close> with a string argument
  (the first index at which the needle occurs, \<open>None\<close> for \<open>npos\<close>).
\<close>

definition c_str :: "string \<Rightarrow> string" where
  "c_str s = takeWhile (\<lambda>c. c \<noteq> CHR 0x00) s"

fun str_find :: "string \<Rightarrow> string \<Rightarrow> nat option" where
  "str_find needle [] = (if needle = [] then Some 0 else None)"
| "str_find needle (c # cs) =
     (if prefix needle (c # cs) then Some 0 else map_option Suc (str_find needle cs))"

definition isspace :: "char \<Rightarrow> bool" where
  "isspace c = (c \<in> set [CHR 0x20, CHR 0x09, CHR 0x0A, CHR 0x0B, CHR 0x0C, CHR 0x0D])"

definition isdigit :: "char \<Rightarrow> bool" where
  "isdigit c = (c \<in> set ''0123456789'')"

definition digit_value :: "char \<Rightarrow> nat" where
  "digit_value c = of_char c - 48"

definition decimal_value :: "string \<Rightarrow> nat" where
  "decimal_value ds = foldl (\<lambda>acc c. 10 * acc + digit_value c) 0 ds"

text \<open>
  The common prefix of \<open>atoi\<close> and \<open>strtoull\<close>: skip white space, read an optional sign,
  then the longest run of decimal digits.  The result is the sign, the digits and the
  unread rest; with no digit nothing is converted and the rest is the whole input.
\<close>

definition scan_number :: "string \<Rightarrow> bool \<times> string \<times> string" where
  "scan_number s =
     (let s1 = dropWhile isspace s;
          neg = (case s1 of c # _ \<Rightarrow> c = CHR ''-'' | [] \<Rightarrow> False);
          s2 = (case s1 of c # cs \<Rightarrow> (if c = CHR ''-'' \<or> c = CHR ''+'' then cs else s1) | [] \<Rightarrow> s1);
          ds = takeWhile isdigit s2
      in if ds = [] then (False, [], s) else (neg, ds, dropWhile isdigit s2))"

text \<open>
  \<open>atoi\<close>: the value is undefined in C when it does not fit an \<open>int\<close>; that case is \<open>None\<close>.
\<close>

definition atoi :: "string \<Rightarrow> int option" where
  "atoi s =
     (case scan_number s of (neg, ds, _) \<Rightarrow>
        (let v = (if neg then - int (decimal_value ds) else int (decimal_value ds))
         in if - (2 ^ 31) \<le> v \<and> v < 2 ^ 31 then Some v else None))"

fun to_string :: "nat \<Rightarrow> string" where
  "to_string n =
     (if n < 10 then [char_of (48 + n)] else to_string (n div 10) @ [char_of (48 + n mod 10)])"

section \<open>Rule records (santa.h, santa.cpp)\<close>

text \<open>
  Modelled from the spec: the declaration of \<open>RuleEntry\<close> that the sources use (a field
  \<open>identifier\<close> and the types TeamID, SigningID, CDHash) is not in the header at hand, which
  still has the older two-type record; the constructors and fields below are the ones the
  functions of santa.cpp and santarulestable.cpp name.
\<close>

datatype RuleType = Binary | Certificate | TeamID | SigningID | CDHash | UnknownType

datatype RuleState = Whitelist | Blacklist | UnknownState

record RuleEntry =
  rule_type :: RuleType
  rule_state :: RuleState
  rule_identifier :: string
  custom_message :: string

datatype fault = NullPointer | AssertFailed | OutOfRange | IntOverflow

fun getRuleTypeName :: "RuleType \<Rightarrow> string" where
  "getRuleTypeName Binary = ''binary''"
| "getRuleTypeName Certificate = ''certificate''"
| "getRuleTypeName TeamID = ''teamid''"
| "getRuleTypeName SigningID = ''signingid''"
| "getRuleTypeName CDHash = ''cdhash''"
| "getRuleTypeName UnknownType = ''unknown''"

fun getRuleStateName :: "RuleState \<Rightarrow> string" where
  "getRuleStateName Whitelist = ''allow''"
| "getRuleStateName Blacklist = ''block''"
| "getRuleStateName UnknownState = ''unknown''"

definition getTypeFromRuleName :: "string \<Rightarrow> RuleType" where
  "getTypeFromRuleName type_name =
     (if type_name = ''certificate'' then Certificate
      else if type_name = ''binary'' then Binary
      else if type_name = ''teamid'' then TeamID
      else if type_name = ''signingid'' then SigningID
      else if type_name = ''cdhash'' then CDHash
      else UnknownType)"

definition getStateFromRuleName :: "string \<Rightarrow> RuleState" where
  "getStateFromRuleName state_name =
     (if state_name = ''blacklist'' \<or> state_name = ''block'' then Blacklist
      else if state_name = ''whitelist'' \<or> state_name = ''allow'' then Whitelist
      else UnknownState)"

subsection \<open>rulesCallback\<close>

text \<open>
  One row of the query result is \<open>argv\<close>: a C string per column, \<open>None\<close> for a NULL
  pointer; \<open>argc\<close> is its length.  The callback appends to the rule list behind \<open>context\<close>
  and always returns 0.  Reading through a NULL \<open>argv[0]\<close> or \<open>argv[1]\<close> is a fault.
\<close>

definition type_of_value :: "int \<Rightarrow> RuleType" where
  "type_of_value type_val =
     (if type_val = 1000 then Binary
      else if type_val = 2000 then Certificate
      else if type_val = 3000 then SigningID
      else if type_val = 4000 then TeamID
      else if type_val = 500 then CDHash
      else UnknownType)"

definition rulesCallback :: "RuleEntry list \<Rightarrow> string option list \<Rightarrow> fault + RuleEntry list" where
  "rulesCallback rules argv =
     (if length argv \<noteq> 4 then Inr rules
      else case argv ! 0 of None \<Rightarrow> Inl NullPointer | Some ident \<Rightarrow>
        (case argv ! 1 of None \<Rightarrow> Inl NullPointer | Some st \<Rightarrow>
          (case (case argv ! 2 of None \<Rightarrow> Some 0 | Some ty \<Rightarrow> atoi ty) of
             None \<Rightarrow> Inl IntOverflow
           | Some type_val \<Rightarrow>
               Inr (rules @
                 [\<lparr> rule_type = type_of_value type_val,
                    rule_state = (if take 1 st = ''1'' then Whitelist else Blacklist),
                    rule_identifier = ident,
                    custom_message = (case argv ! 3 of None \<Rightarrow> [] | Some m \<Rightarrow> m) \<rparr>]))))"

fun run_callback :: "RuleEntry list \<Rightarrow> string option list list \<Rightarrow> fault + RuleEntry list" where
  "run_callback rules [] = Inr rules"
| "run_callback rules (argv # rest) =
     (case rulesCallback rules argv of Inl f \<Rightarrow> Inl f | Inr rules' \<Rightarrow> run_callback rules' rest)"

subsection \<open>collectSantaRules\<close>

text \<open>
  What the file system and SQLite answer during one call: whether the rule database and the
  temporary copy open, the return codes of \<open>sqlite3_open\<close>, of the schema query, of
  \<open>sqlite3_exec\<close> (with the rows it hands to the callback, as a function of the query text)
  and of \<open>sqlite3_close\<close>, and the column names the schema query lists.
\<close>

record rule_db =
  src_is_open :: bool
  dst_is_open :: bool
  sqlite3_open_rc :: int
  schema_rc :: int
  schema_columns :: "string list"
  sqlite3_exec :: "string \<Rightarrow> string option list list \<times> int"
  sqlite3_close_rc :: int

definition SQLITE_OK :: int where
  "SQLITE_OK = 0"

definition collectSantaRules :: "rule_db \<Rightarrow> fault + (bool \<times> RuleEntry list)" where
  "collectSantaRules db =
     (if \<not> src_is_open db then Inr (False, [])
      else if \<not> dst_is_open db then Inr (False, [])
      else if SQLITE_OK \<noteq> sqlite3_open_rc db then Inr (False, [])
      else if schema_rc db \<noteq> SQLITE_OK then Inr (False, [])
      else
        let has_identifier = (''identifier'' \<in> set (schema_columns db));
            has_shasum = (''shasum'' \<in> set (schema_columns db))
        in if \<not> has_identifier \<and> \<not> has_shasum then Inr (False, [])
           else
             let id_column = (if has_identifier then ''identifier'' else ''shasum'');
                 query = ''SELECT '' @ id_column @ '', state, type, custommsg FROM rules;'';
                 (rows, rc) = sqlite3_exec db query
             in case run_callback [] rows of
                  Inl f \<Rightarrow> Inl f
                | Inr response \<Rightarrow>
                    let rc = sqlite3_close_rc db in Inr (rc = SQLITE_OK, response))"

section \<open>The rule table (santarulestable.cpp)\<close>

type_synonym RowID = "32 word"

text \<open>
  An \<open>unordered_map\<close> is an association list with distinct keys, in the order in which the
  map is iterated; \<open>um_insert\<close> is \<open>insert\<close>, which leaves the map alone when the key is
  there and puts a new entry last otherwise.  The order of iteration of the real container is
  not specified: the properties of a refresh below are stated for a previous mapping in any
  order.  The state is \<open>PrivateData\<close> together with the static counter of
  \<open>generateRowID\<close>, an unsigned 32-bit integer that wraps.
\<close>

definition um_insert :: "'k \<Rightarrow> 'v \<Rightarrow> ('k \<times> 'v) list \<Rightarrow> ('k \<times> 'v) list" where
  "um_insert k v m = (case map_of m k of None \<Rightarrow> m @ [(k, v)] | Some _ \<Rightarrow> m)"

record PrivateData =
  rowid_to_pkey :: "(RowID \<times> string) list"
  rule_list :: "(string \<times> RuleEntry) list"
  generator :: RowID

definition generateRowID :: "RowID \<Rightarrow> RowID \<times> RowID" where
  "generateRowID g = (g, g + 1)"

definition generatePrimaryKey2 :: "string \<Rightarrow> RuleType \<Rightarrow> string" where
  "generatePrimaryKey2 ident ty = ident @ ''_'' @ getRuleTypeName ty"

definition generatePrimaryKey :: "RuleEntry \<Rightarrow> string" where
  "generatePrimaryKey rule = generatePrimaryKey2 (rule_identifier rule) (rule_type rule)"

text \<open>
  An \<open>osquery::Status\<close> is a code and a message; built from the code 0 alone it has the
  message OK.
\<close>

datatype Status = Status int string

fun ok :: "Status \<Rightarrow> bool" where
  "ok (Status c _) = (c = 0)"

fun getMessage :: "Status \<Rightarrow> string" where
  "getMessage (Status _ m) = m"

text \<open>The body of the loop of \<open>updateRules\<close>, for one collected rule.\<close>

definition updateRules_step :: "(RowID \<times> string) list \<Rightarrow> RuleEntry \<Rightarrow> PrivateData \<Rightarrow> PrivateData" where
  "updateRules_step old_rowid_mappings new_rule d =
     (let primary_key = generatePrimaryKey new_rule;
          rules' = um_insert primary_key new_rule (rule_list d);
          (rowid, g) = (case find (\<lambda>p. primary_key = snd p) old_rowid_mappings of
                          None \<Rightarrow> generateRowID (generator d)
                        | Some it \<Rightarrow> (fst it, generator d))
      in \<lparr> rowid_to_pkey = um_insert rowid primary_key (rowid_to_pkey d),
           rule_list = rules',
           generator = g \<rparr>)"

fun updateRules_loop :: "(RowID \<times> string) list \<Rightarrow> RuleEntry list \<Rightarrow> PrivateData \<Rightarrow> PrivateData" where
  "updateRules_loop old [] d = d"
| "updateRules_loop old (new_rule # rest) d =
     updateRules_loop old rest (updateRules_step old new_rule d)"

definition updateRules :: "rule_db \<Rightarrow> PrivateData \<Rightarrow> fault + (Status \<times> PrivateData)" where
  "updateRules db d =
     (case collectSantaRules db of
        Inl f \<Rightarrow> Inl f
      | Inr (collected, new_rule_list) \<Rightarrow>
          if \<not> collected then Inr (Status 1 ''Failed to enumerate the Santa rules'', d)
          else Inr (Status 0 ''OK'',
                    updateRules_loop (rowid_to_pkey d) new_rule_list
                      (d\<lparr> rowid_to_pkey := [], rule_list := [] \<rparr>)))"

subsection \<open>Requests, rows and the external command\<close>

text \<open>
  A \<open>Row\<close> and a \<open>PluginRequest\<close> are maps from strings to strings; \<open>row_get\<close> is
  \<open>operator[]\<close> read on a row (the empty string for a missing key).  The parsed request
  payload is a rapidjson value; \<open>GetString\<close> on a value that is not a string fails its
  assertion.
\<close>

type_synonym Row = "string \<rightharpoonup> string"

type_synonym QueryData = "Row list"

type_synonym PluginRequest = "string \<rightharpoonup> string"

definition row_get :: "Row \<Rightarrow> string \<Rightarrow> string" where
  "row_get row k = (case row k of None \<Rightarrow> [] | Some v \<Rightarrow> v)"

datatype jvalue = JNull | JBool bool | JNumber | JString string | JArray "jvalue list"
  | JObject "(string \<times> jvalue) list"

fun GetString :: "jvalue \<Rightarrow> fault + string" where
  "GetString (JString s) = Inr (c_str s)"
| "GetString _ = Inl AssertFailed"

definition hex_only :: "string \<Rightarrow> bool" where
  "hex_only s = list_all (\<lambda>c. c \<in> set ''0123456789abcdef'') s"

text \<open>
  The chain of tests on \<open>row["type"]\<close> in \<open>GetRowData\<close>: the message of the status it
  returns for an identifier it refuses, \<open>None\<close> when it goes on to the state.
\<close>

definition identifier_error :: "string \<Rightarrow> string \<Rightarrow> string option" where
  "identifier_error ty ident =
     (if ty = ''binary'' then
        (if length ident \<noteq> 64 \<or> \<not> hex_only ident
         then Some ''Invalid 'identifier' value for binary rule'' else None)
      else if ty = ''cdhash'' then
        (if \<not> hex_only ident then Some ''Invalid 'identifier' value for cdhash rule'' else None)
      else if ty = ''teamid'' then
        (if ident = [] then Some ''Invalid 'identifier' value for teamid rule'' else None)
      else if ty = ''signingid'' then
        (if CHR '':'' \<notin> set ident \<or> ident = []
         then Some ''Invalid 'identifier' value for signingid rule, expected format: TeamID:BundleID''
         else None)
      else if ty = ''certificate'' then
        (if \<not> hex_only ident
         then Some ''Invalid 'identifier' value for certificate rule - must contain only hex characters''
         else None)
      else Some ''Invalid 'type' value, must be one of: binary, certificate, teamid, signingid, cdhash'')"

text \<open>\<open>document\<close> is the result of \<open>document.Parse\<close>, \<open>None\<close> for a parse error.\<close>

definition GetRowData :: "jvalue option \<Rightarrow> fault + (Status \<times> Row)" where
  "GetRowData document =
     (case document of
        Some (JArray doc) \<Rightarrow>
          if length doc \<noteq> 4 then Inr (Status 1 ''Wrong column count'', Map.empty)
          else if doc ! 0 = JNull then Inr (Status 1 ''Missing 'identifier' value'', Map.empty)
          else if doc ! 1 = JNull then Inr (Status 1 ''Missing 'state' value'', Map.empty)
          else if doc ! 2 = JNull then Inr (Status 1 ''Missing 'type' value'', Map.empty)
          else
            (case (if doc ! 3 = JNull then Inr [] else GetString (doc ! 3)) of
               Inl f \<Rightarrow> Inl f
             | Inr msg \<Rightarrow>
            (case GetString (doc ! 0) of
               Inl f \<Rightarrow> Inl f
             | Inr ident \<Rightarrow>
            (case GetString (doc ! 2) of
               Inl f \<Rightarrow> Inl f
             | Inr ty \<Rightarrow>
                 let row = [''custom_message'' \<mapsto> msg, ''identifier'' \<mapsto> ident, ''type'' \<mapsto> ty]
                 in (case identifier_error ty ident of
                       Some e \<Rightarrow> Inr (Status 1 e, row)
                     | None \<Rightarrow>
                         (case GetString (doc ! 1) of
                            Inl f \<Rightarrow> Inl f
                          | Inr st \<Rightarrow>
                              if st \<noteq> ''whitelist'' \<and> st \<noteq> ''blacklist'' \<and>
                                 st \<noteq> ''allow'' \<and> st \<noteq> ''block''
                              then Inr (Status 1
                                ''Invalid 'state' value, must be one of: whitelist, blacklist, allow, block'',
                                row(''state'' \<mapsto> st))
                              else Inr (Status 0 ''OK'', row(''state'' \<mapsto> st)))))))
      | _ \<Rightarrow> Inr (Status 1 ''Invalid json received by osquery'', Map.empty))"

record ProcessOutput =
  std_output :: string
  std_error :: string
  exit_code :: int

text \<open>
  What lies outside the table during one request: the rapidjson parser, whether the file at
  \<open>kSantactlPath\<close> opens, what \<open>ExecuteProcess\<close> answers for a path and an argument list
  (\<open>None\<close> when it returns false, leaving the output empty), and the rule database as
  \<open>collectSantaRules\<close> finds it afterwards.  A request leaves a trace of the commands it ran.
  \<open>delete_\<close> tells the two failures of the removal command apart only in what it logs, so
  its \<open>VLOG\<close> lines are in the trace too; the log lines of the other functions have no
  bearing on what they return and are left out.
\<close>

record world =
  Parse :: "string \<Rightarrow> jvalue option"
  santactl_good :: bool
  ExecuteProcess :: "string \<Rightarrow> string list \<Rightarrow> ProcessOutput option"
  rules_db :: rule_db

datatype effect = Exec string "string list" | Vlog string

definition kSantactlPath :: string where
  "kSantactlPath = ''/usr/local/bin/santactl''"

definition kMandatoryRuleDeletionError :: string where
  "kMandatoryRuleDeletionError =
     ''Failed to modify rules: A required rule was requested to be deleted''"

definition failure :: QueryData where
  "failure = [[''status'' \<mapsto> ''failure'']]"

definition failure_with :: "string \<Rightarrow> QueryData" where
  "failure_with m = [[''status'' \<mapsto> ''failure'', ''message'' \<mapsto> m]]"

subsection \<open>insert\<close>

text \<open>
  The member functions \<open>insert\<close> and \<open>delete_\<close> are \<open>insert_row\<close> and
  \<open>delete_row\<close> here.
\<close>

definition type_arguments :: "string \<Rightarrow> string \<Rightarrow> string list" where
  "type_arguments rule_type_name ident =
     (if rule_type_name = ''binary'' then [''--identifier'', ident]
      else if rule_type_name = ''certificate'' then [''--identifier'', ident, ''--certificate'']
      else if rule_type_name = ''teamid'' then [''--identifier'', ident, ''--teamid'']
      else if rule_type_name = ''signingid'' then [''--identifier'', ident, ''--signingid'']
      else if rule_type_name = ''cdhash'' then [''--identifier'', ident, ''--cdhash'']
      else [])"

text \<open>The search of \<open>insert\<close> through the refreshed mapping for the rule just added.\<close>

definition rule_matches :: "PrivateData \<Rightarrow> string \<Rightarrow> RuleType \<Rightarrow> RuleState \<Rightarrow> RowID \<times> string \<Rightarrow> bool" where
  "rule_matches d primary_key enum_type st p =
     (primary_key = snd p \<and>
      (case map_of (rule_list d) primary_key of
         None \<Rightarrow> False
       | Some rule \<Rightarrow> rule_type rule = enum_type \<and> rule_state rule = st))"

definition insert_row :: "world \<Rightarrow> PluginRequest \<Rightarrow> PrivateData \<Rightarrow> fault + (QueryData \<times> PrivateData \<times> effect list)" where
  "insert_row w request d =
     (case request ''json_value_array'' of
        None \<Rightarrow> Inl OutOfRange
      | Some json_value_array \<Rightarrow>
     (case GetRowData (Parse w json_value_array) of
        Inl f \<Rightarrow> Inl f
      | Inr (status, row) \<Rightarrow>
          if \<not> ok status then Inr (failure, d, [])
          else
            let whitelist = (row_get row ''state'' = ''whitelist'' \<or> row_get row ''state'' = ''allow'');
                rule_type_name = row_get row ''type'';
                ident = row_get row ''identifier'';
                message = row_get row ''custom_message'';
                state_arg = (if whitelist then ''--allow'' else ''--block'')
            in if \<not> santactl_good w then Inr (failure_with ''santactl not found'', d, [])
               else
                 let santactl_args = [''rule'', state_arg] @ type_arguments rule_type_name ident @
                       (if message \<noteq> [] then [''--message'', message] else []);
                     trace = [Exec kSantactlPath santactl_args]
                 in (case ExecuteProcess w kSantactlPath santactl_args of
                       None \<Rightarrow> Inr (failure_with ''Failed to execute santactl process'', d, trace)
                     | Some santactl_output \<Rightarrow>
                         if exit_code santactl_output \<noteq> 0
                         then Inr (failure_with
                                (''santactl command failed: '' @ std_output santactl_output), d, trace)
                         else
                           (case updateRules (rules_db w) d of
                              Inl f \<Rightarrow> Inl f
                            | Inr (status, d1) \<Rightarrow>
                                if \<not> ok status
                                then Inr (failure_with
                                       (''Failed to update rules: '' @ getMessage status), d1, trace)
                                else
                                  let enum_type = getTypeFromRuleName rule_type_name;
                                      st = getStateFromRuleName (row_get row ''state'');
                                      primary_key = generatePrimaryKey2 ident enum_type
                                  in (case find (rule_matches d1 primary_key enum_type st)
                                             (rowid_to_pkey d1) of
                                        Some p \<Rightarrow>
                                          Inr ([[''id'' \<mapsto> to_string (unat (fst p)),
                                                 ''status'' \<mapsto> ''success'']], d1, trace)
                                      | None \<Rightarrow>
                                          let (row_id, g) = generateRowID (generator d1);
                                              new_rule = \<lparr> rule_type = enum_type, rule_state = st,
                                                rule_identifier = ident, custom_message = message \<rparr>;
                                              synthetic_key = generatePrimaryKey new_rule;
                                              d2 = \<lparr> rowid_to_pkey =
                                                      um_insert row_id synthetic_key (rowid_to_pkey d1),
                                                    rule_list =
                                                      um_insert synthetic_key new_rule (rule_list d1),
                                                    generator = g \<rparr>
                                          in Inr ([[''id'' \<mapsto> to_string (unat row_id),
                                                    ''status'' \<mapsto> ''success'']], d2, trace))))))"

subsection \<open>delete\<close>

text \<open>
  \<open>strtoull\<close> in base 10: the value read and the unread rest.  A value past
  \<open>ULLONG_MAX\<close> is \<open>ULLONG_MAX\<close>; a minus sign negates modulo \<open>2 ^ 64\<close>.
\<close>

definition strtoull :: "string \<Rightarrow> nat \<times> string" where
  "strtoull s =
     (case scan_number s of (neg, ds, rest) \<Rightarrow>
        (let v = decimal_value ds
         in (if 2 ^ 64 \<le> v then 2 ^ 64 - 1
             else if neg then (2 ^ 64 - v) mod 2 ^ 64 else v, rest)))"

text \<open>
  Modelled from the spec: the declaration of the enumeration \<open>RuleEntry::Type\<close> is not in
  the header at hand; \<open>type_index\<close> is the integer a cast of its values gives, in the order
  in which the data model lists them (only the value of the last one, Unknown, is used).
\<close>

fun type_index :: "RuleType \<Rightarrow> nat" where
  "type_index Binary = 0"
| "type_index Certificate = 1"
| "type_index SigningID = 2"
| "type_index TeamID = 3"
| "type_index CDHash = 4"
| "type_index UnknownType = 5"

text \<open>
  The switch of \<open>delete_\<close> on the rule type: the arguments it adds to the command,
  \<open>None\<close> for the default branch.
\<close>

definition removal_arguments :: "RuleEntry \<Rightarrow> string list option" where
  "removal_arguments rule =
     (case rule_type rule of
        Binary \<Rightarrow> Some [''--identifier'', rule_identifier rule]
      | Certificate \<Rightarrow> Some [''--identifier'', rule_identifier rule, ''--certificate'']
      | TeamID \<Rightarrow> Some [''--identifier'', rule_identifier rule, ''--teamid'']
      | SigningID \<Rightarrow> Some [''--identifier'', rule_identifier rule, ''--signingid'']
      | CDHash \<Rightarrow> Some [''--identifier'', rule_identifier rule, ''--cdhash'']
      | UnknownType \<Rightarrow> None)"

definition delete_row :: "world \<Rightarrow> PluginRequest \<Rightarrow> PrivateData \<Rightarrow> fault + (QueryData \<times> PrivateData \<times> effect list)" where
  "delete_row w request d =
     (case request ''id'' of
        None \<Rightarrow> Inl OutOfRange
      | Some id_arg \<Rightarrow>
     (case strtoull (c_str id_arg) of (temp, null_term_ptr) \<Rightarrow>
        if null_term_ptr \<noteq> [] then Inr (failure, d, [])
        else
          let rowid = (word_of_nat temp :: RowID)
          in (case map_of (rowid_to_pkey d) rowid of
                None \<Rightarrow> Inr (failure, d, [])
              | Some pkey \<Rightarrow>
             (case map_of (rule_list d) pkey of
                None \<Rightarrow> Inr (failure, d,
                  [Vlog ''RowID -> Primary Key mismatch in the santa_rules table''])
              | Some rule \<Rightarrow>
                  let log0 = Vlog (''Executing santactl remove command: '' @ kSantactlPath) #
                        map (\<lambda>arg. Vlog (''  Arg: '' @ arg)) [''rule'', ''--remove''];
                      ident = rule_identifier rule
                  in (case removal_arguments rule of
                        None \<Rightarrow> Inr (failure, d, log0 @
                          [Vlog (''Unknown rule type: '' @ to_string (type_index (rule_type rule)))])
                      | Some type_args \<Rightarrow>
                          let santactl_args = [''rule'', ''--remove''] @ type_args;
                              trace = log0 @ map (\<lambda>arg. Vlog (''  Arg: '' @ arg)) santactl_args @
                                [Vlog (''Executing command: '' @ kSantactlPath)] @
                                map (\<lambda>arg. Vlog (''  '' @ arg)) santactl_args @
                                [Exec kSantactlPath santactl_args];
                              result = ExecuteProcess w kSantactlPath santactl_args;
                              santactl_output = (case result of
                                  None \<Rightarrow> \<lparr> std_output = [], std_error = [], exit_code = 0 \<rparr>
                                | Some out \<Rightarrow> out)
                          in if result = None \<or> exit_code santactl_output \<noteq> 0
                             then Inr (failure, d, trace @
                               [if str_find kMandatoryRuleDeletionError (std_output santactl_output) = Some 0
                                then Vlog (''Rule '' @ ident @ ''/'' @ getRuleTypeName (rule_type rule) @
                                           '' is mandatory and can't be removed'')
                                else Vlog ''Failed to remove the rule''])
                             else
                               (case updateRules (rules_db w) d of
                                  Inl f \<Rightarrow> Inl f
                                | Inr (status, d1) \<Rightarrow>
                                    if \<not> ok status
                                    then Inr (failure, d1, trace @ [Vlog (getMessage status)])
                                    else Inr ([[''status'' \<mapsto> ''success'']], d1, trace)))))))"

section \<open>The decision log (santa.cpp)\<close>

datatype SantaDecisionType = kAllowed | kDenied

record LogEntry =
  timestamp :: string
  application :: string
  reason :: string
  sha256 :: string

definition kLogEntryPreface :: string where
  "kLogEntryPreface = ''santad: ''"

subsection \<open>extractValues\<close>

text \<open>
  \<open>find_char P s pos\<close> is the first index from \<open>pos\<close> on whose character satisfies
  \<open>P\<close> (\<open>find\<close> and \<open>find_first_not_of\<close> with a position), \<open>substr\<close> is
  \<open>std::string::substr\<close> for a start inside the string, and \<open>size_t_sub\<close> is
  subtraction of \<open>size_t\<close> values, which wraps.
\<close>

definition find_char :: "(char \<Rightarrow> bool) \<Rightarrow> string \<Rightarrow> nat \<Rightarrow> nat option" where
  "find_char P s pos =
     (case dropWhile (\<lambda>c. \<not> P c) (drop pos s) of
        [] \<Rightarrow> None
      | _ # _ \<Rightarrow> Some (pos + length (takeWhile (\<lambda>c. \<not> P c) (drop pos s))))"

definition substr :: "string \<Rightarrow> nat \<Rightarrow> nat \<Rightarrow> string" where
  "substr s pos n = take n (drop pos s)"

definition size_t_sub :: "nat \<Rightarrow> nat \<Rightarrow> nat" where
  "size_t_sub a b = (2 ^ 64 + a - b) mod 2 ^ 64"

definition emplace :: "string \<Rightarrow> string \<Rightarrow> (string \<rightharpoonup> string) \<Rightarrow> (string \<rightharpoonup> string)" where
  "emplace k v values = (case values k of None \<Rightarrow> values(k \<mapsto> v) | Some _ \<Rightarrow> values)"

function extract_pairs :: "string \<Rightarrow> nat \<Rightarrow> (string \<rightharpoonup> string) \<Rightarrow> (string \<rightharpoonup> string)" where
  "extract_pairs line key_pos values =
     (case find_char (\<lambda>c. c = CHR ''='') line key_pos of
        None \<Rightarrow> values
      | Some key_end \<Rightarrow>
          (case find_char (\<lambda>c. c \<noteq> CHR ''='') line key_end of
             None \<Rightarrow> values
           | Some val_pos \<Rightarrow>
               (case find_char (\<lambda>c. c = CHR ''|'') line val_pos of
                  None \<Rightarrow>
                    emplace (substr line key_pos (key_end - key_pos)) (drop val_pos line) values
                | Some val_end \<Rightarrow>
                    extract_pairs line (val_end + 1)
                      (emplace (substr line key_pos (key_end - key_pos))
                         (substr line val_pos (val_end - val_pos)) values))))"
  by pat_completeness auto

termination
proof (relation "measure (\<lambda>(line, key_pos, values). length line - key_pos)")
  show "wf (measure (\<lambda>(line, key_pos, values). length line - key_pos))"
    by simp
next
  fix line :: string and key_pos key_end val_pos val_end :: nat and vs :: "string \<rightharpoonup> string"
  have bound: "p \<le> i \<and> i < length line" if "find_char P line p = Some i" for P p i
  proof -
    let ?xs = "drop p line"
    from that have ne: "dropWhile (\<lambda>c. \<not> P c) ?xs \<noteq> []"
      and i: "i = p + length (takeWhile (\<lambda>c. \<not> P c) ?xs)"
      unfolding find_char_def by (cases "dropWhile (\<lambda>c. \<not> P c) ?xs"; simp)+
    have "length (takeWhile (\<lambda>c. \<not> P c) ?xs) + length (dropWhile (\<lambda>c. \<not> P c) ?xs) = length ?xs"
      by (metis length_append takeWhile_dropWhile_id)
    with ne have "length (takeWhile (\<lambda>c. \<not> P c) ?xs) < length ?xs"
      by (cases "dropWhile (\<lambda>c. \<not> P c) ?xs") auto
    with i show ?thesis by auto
  qed
  assume "find_char (\<lambda>c. c = CHR ''='') line key_pos = Some key_end"
    and "find_char (\<lambda>c. c \<noteq> CHR ''='') line key_end = Some val_pos"
    and "find_char (\<lambda>c. c = CHR ''|'') line val_pos = Some val_end"
  then have "key_pos \<le> key_end" "key_end \<le> val_pos" "val_pos \<le> val_end" "val_end < length line"
    using bound by blast+
  then show "((line, val_end + 1,
        emplace (substr line key_pos (key_end - key_pos)) (substr line val_pos (val_end - val_pos)) vs),
       line, key_pos, vs) \<in> measure (\<lambda>(line, key_pos, values). length line - key_pos)"
    by simp
qed

definition extractValues :: "string \<Rightarrow> (string \<rightharpoonup> string)" where
  "extractValues line =
     (let values =
            (case (find_char (\<lambda>c. c = CHR ''['') line 0, find_char (\<lambda>c. c = CHR '']'') line 0) of
               (Some timestamp_start, Some timestamp_end) \<Rightarrow>
                 if timestamp_start \<noteq> timestamp_end
                 then [''timestamp'' \<mapsto> substr line (timestamp_start + 1)
                         (size_t_sub (size_t_sub timestamp_end timestamp_start) 1)]
                 else Map.empty
             | _ \<Rightarrow> Map.empty)
      in case str_find kLogEntryPreface line of
           None \<Rightarrow> values
         | Some key_pos \<Rightarrow> extract_pairs line (key_pos + length kLogEntryPreface) values)"

subsection \<open>Scraping\<close>

definition line_matches :: "SantaDecisionType \<Rightarrow> string \<Rightarrow> bool" where
  "line_matches decision line =
     (case decision of
        kAllowed \<Rightarrow> str_find ''decision=ALLOW'' line \<noteq> None
      | kDenied \<Rightarrow> str_find ''decision=DENY'' line \<noteq> None)"

definition entry_of_line :: "string \<Rightarrow> LogEntry" where
  "entry_of_line line =
     (let values = extractValues line
      in \<lparr> timestamp = row_get values ''timestamp'', application = row_get values ''path'',
           reason = row_get values ''reason'', sha256 = row_get values ''sha256'' \<rparr>)"

text \<open>
  The stream is its lines; the response and the global \<open>archived_lines\<close> are passed through.
\<close>

fun scrapeStream :: "string list \<Rightarrow> bool \<Rightarrow> SantaDecisionType \<Rightarrow> LogEntry list \<times> string list \<Rightarrow> LogEntry list \<times> string list" where
  "scrapeStream [] save_to_archive decision (response, archived) = (response, archived)"
| "scrapeStream (line # incoming) save_to_archive decision (response, archived) =
     (if \<not> line_matches decision line
      then scrapeStream incoming save_to_archive decision (response, archived)
      else scrapeStream incoming save_to_archive decision
             (response @ [entry_of_line line],
              if save_to_archive then archived @ [line] else archived))"

text \<open>
  The log directory: the lines of the live log (\<open>None\<close> when it does not open) and the
  rotated archives by index, each missing, present but failing to decompress, or holding
  lines.  The two globals of santa.cpp are the state; the archive index is a natural number,
  the archives being finitely many.
\<close>

datatype archive = Missing | Corrupt | Gz "string list"

record log_files =
  live_log :: "string list option"
  archives :: "archive list"

record log_state =
  archived_lines :: "string list"
  next_oldest_archive :: nat

definition archive_at :: "log_files \<Rightarrow> nat \<Rightarrow> archive" where
  "archive_at fs i = (if i < length (archives fs) then archives fs ! i else Missing)"

definition scrapeCurrentLog :: "log_files \<Rightarrow> SantaDecisionType \<Rightarrow> LogEntry list" where
  "scrapeCurrentLog fs decision =
     (case live_log fs of
        None \<Rightarrow> []
      | Some log_file \<Rightarrow> fst (scrapeStream log_file False decision ([], [])))"

definition scrapeCompressedSantaLog :: "log_files \<Rightarrow> nat \<Rightarrow> SantaDecisionType \<Rightarrow> LogEntry list \<times> log_state \<Rightarrow> bool \<times> LogEntry list \<times> log_state" where
  "scrapeCompressedSantaLog fs i decision rs =
     (case rs of (response, st) \<Rightarrow>
        (case archive_at fs i of
           Gz content \<Rightarrow>
             (case scrapeStream content True decision (response, archived_lines st) of
                (response', archived') \<Rightarrow> (True, response', st\<lparr> archived_lines := archived' \<rparr>))
         | _ \<Rightarrow> (False, response, st)))"

definition newArchiveFileExists :: "log_files \<Rightarrow> log_state \<Rightarrow> bool" where
  "newArchiveFileExists fs st = (archive_at fs (next_oldest_archive st) \<noteq> Missing)"

definition processArchivedLines :: "string list \<Rightarrow> LogEntry list \<Rightarrow> LogEntry list" where
  "processArchivedLines archived response = response @ map entry_of_line archived"

function scan_archives :: "log_files \<Rightarrow> SantaDecisionType \<Rightarrow> nat \<Rightarrow> LogEntry list \<times> log_state \<Rightarrow> LogEntry list \<times> log_state" where
  "scan_archives fs decision i (response, st) =
     (case scrapeCompressedSantaLog fs i decision (response, st\<lparr> next_oldest_archive := i \<rparr>) of
        (True, rs') \<Rightarrow> scan_archives fs decision (i + 1) rs'
      | (False, rs') \<Rightarrow> rs')"
  by pat_completeness auto

termination
proof (relation "measure (\<lambda>(fs, decision, i, rs). length (archives fs) - i)")
  show "wf (measure (\<lambda>(fs, decision, i, rs). length (archives fs) - i))"
    by simp
next
  fix fs :: log_files and decision i and response :: "LogEntry list" and st :: log_state and x y
  assume "(x, y) = scrapeCompressedSantaLog fs i decision (response, st\<lparr>next_oldest_archive := i\<rparr>)"
    and "x = True"
  then have "i < length (archives fs)"
    by (auto simp: scrapeCompressedSantaLog_def archive_at_def split: archive.splits if_splits prod.splits)
  then show "((fs, decision, i + 1, y), fs, decision, i, response, st)
      \<in> measure (\<lambda>(fs, decision, i, rs). length (archives fs) - i)"
    by simp
qed

definition scrapeSantaLog :: "log_files \<Rightarrow> SantaDecisionType \<Rightarrow> log_state \<Rightarrow> bool \<times> LogEntry list \<times> log_state" where
  "scrapeSantaLog fs decision st =
     (let response = scrapeCurrentLog fs decision
      in if \<not> newArchiveFileExists fs st
         then (True, processArchivedLines (archived_lines st) response, st)
         else (case scan_archives fs decision 0 (response, st\<lparr> archived_lines := [] \<rparr>) of
                 (response', st') \<Rightarrow> (True, response', st')))"

section \<open>Auxiliary definitions\<close>

subsection \<open>The invariant of the loop of updateRules\<close>

text \<open>
  An entry of the mapping under construction carries the rowid of the first entry of the
  previous mapping with its key, or, when there is none, a rowid not below the counter at
  the start of the refresh.  All rowids of the new mapping are below the counter.
\<close>

definition entry_ok :: "(RowID \<times> string) list \<Rightarrow> RowID \<Rightarrow> RowID \<times> string \<Rightarrow> bool" where
  "entry_ok old g0 e =
     (case find (\<lambda>p. snd e = snd p) old of
        Some it \<Rightarrow> fst e = fst it
      | None \<Rightarrow> g0 \<le> fst e)"

definition loop_inv :: "(RowID \<times> string) list \<Rightarrow> RowID \<Rightarrow> PrivateData \<Rightarrow> bool" where
  "loop_inv old g0 d =
     (list_all (entry_ok old g0) (rowid_to_pkey d) \<and>
      list_all (\<lambda>e. fst e < generator d) (rowid_to_pkey d) \<and>
      g0 \<le> generator d \<and> distinct (map fst (rowid_to_pkey d)))"

text \<open>
  The number of rowids a refresh takes from the counter: one for each collected rule whose
  primary key the previous mapping does not hold.
\<close>

definition new_keys :: "(RowID \<times> string) list \<Rightarrow> RuleEntry list \<Rightarrow> nat" where
  "new_keys old rs = length (filter (\<lambda>r. generatePrimaryKey r \<notin> snd ` set old) rs)"

subsection \<open>What a request returns and runs\<close>

text \<open>
  \<open>reply\<close> is what the caller of insert or delete receives, \<open>commands\<close> the external
  commands in a trace.
\<close>

definition reply :: "fault + (QueryData \<times> PrivateData \<times> effect list) \<Rightarrow> QueryData option" where
  "reply r = (case r of Inl _ \<Rightarrow> None | Inr (q, _, _) \<Rightarrow> Some q)"

fun commands :: "effect list \<Rightarrow> (string \<times> string list) list" where
  "commands [] = []"
| "commands (Exec path args # t) = (path, args) # commands t"
| "commands (Vlog _ # t) = commands t"

definition ran :: "fault + (QueryData \<times> PrivateData \<times> effect list) \<Rightarrow> (string \<times> string list) list" where
  "ran r = (case r of Inl _ \<Rightarrow> [] | Inr (_, _, t) \<Rightarrow> commands t)"

subsection \<open>The claims' own notions\<close>

text \<open>
  The validity of an identifier for a rule type, and of a state name, as the properties of
  insert state them; \<open>accepted\<close> says that \<open>GetRowData\<close> returns an OK status.
\<close>

definition identifier_valid :: "string \<Rightarrow> string \<Rightarrow> bool" where
  "identifier_valid ty ident =
     (if ty = ''binary'' then length ident = 64 \<and> hex_only ident
      else if ty = ''certificate'' \<or> ty = ''cdhash'' then hex_only ident
      else if ty = ''signingid'' then CHR '':'' \<in> set ident
      else if ty = ''teamid'' then ident \<noteq> []
      else False)"

definition state_valid :: "string \<Rightarrow> bool" where
  "state_valid st = (st \<in> set [''whitelist'', ''blacklist'', ''allow'', ''block''])"

definition accepted :: "jvalue option \<Rightarrow> bool" where
  "accepted document = (case GetRowData document of Inl _ \<Rightarrow> False | Inr (status, _) \<Rightarrow> ok status)"


definition events_of :: "SantaDecisionType \<Rightarrow> string list \<Rightarrow> LogEntry list" where
  "events_of decision lines = map entry_of_line (filter (line_matches decision) lines)"

subsection \<open>Example data\<close>

definition example_db :: rule_db where
  "example_db = \<lparr> src_is_open = True, dst_is_open = True, sqlite3_open_rc = 0, schema_rc = 0,
     schema_columns = [''identifier'', ''state'', ''type'', ''custommsg''],
     sqlite3_exec = (\<lambda>q. ([[Some ''aa'', Some ''1'', Some ''1000'', None],
                              [Some ''T1'', Some ''2'', Some ''4000'', Some ''no'']], 0)),
     sqlite3_close_rc = 0 \<rparr>"

definition example_rules :: "RuleEntry list" where
  "example_rules =
     [\<lparr> rule_type = Binary, rule_state = Whitelist, rule_identifier = ''aa'', custom_message = [] \<rparr>,
      \<lparr> rule_type = TeamID, rule_state = Blacklist, rule_identifier = ''T1'', custom_message = ''no'' \<rparr>]"

definition example_data :: PrivateData where
  "example_data = \<lparr> rowid_to_pkey = [(3, ''T1_teamid''), (1, ''zz_binary'')],
     rule_list = [], generator = 4 \<rparr>"

definition wrap_db :: rule_db where
  "wrap_db = \<lparr> src_is_open = True, dst_is_open = True, sqlite3_open_rc = 0, schema_rc = 0,
     schema_columns = [''identifier'', ''state'', ''type'', ''custommsg''],
     sqlite3_exec = (\<lambda>q. ([[Some ''a'', Some ''1'', Some ''1000'', None],
                              [Some ''b'', Some ''1'', Some ''1000'', None],
                              [Some ''c'', Some ''1'', Some ''1000'', None]], 0)),
     sqlite3_close_rc = 0 \<rparr>"

definition binary_rule :: "string \<Rightarrow> RuleEntry" where
  "binary_rule ident = \<lparr> rule_type = Binary, rule_state = Whitelist, rule_identifier = ident,
     custom_message = [] \<rparr>"

definition wrap_start :: PrivateData where
  "wrap_start = \<lparr> rowid_to_pkey = [(0, ''a_binary'')],
     rule_list = [(''a_binary'', binary_rule ''a'')], generator = 4294967295 \<rparr>"

definition wrap_after :: PrivateData where
  "wrap_after = \<lparr> rowid_to_pkey = [(0, ''a_binary''), (4294967295, ''b_binary'')],
     rule_list = [(''a_binary'', binary_rule ''a''), (''b_binary'', binary_rule ''b''),
       (''c_binary'', binary_rule ''c'')],
     generator = 1 \<rparr>"






definition empty_db :: rule_db where
  "empty_db = \<lparr> src_is_open = True, dst_is_open = True, sqlite3_open_rc = 0, schema_rc = 0,
     schema_columns = [''identifier'', ''state'', ''type'', ''custommsg''],
     sqlite3_exec = (\<lambda>q. ([], 0)), sqlite3_close_rc = 0 \<rparr>"

definition removing_world :: world where
  "removing_world = \<lparr> Parse = (\<lambda>s. None), santactl_good = True,
     ExecuteProcess = (\<lambda>path args. Some \<lparr> std_output = [], std_error = [], exit_code = 0 \<rparr>),
     rules_db = empty_db \<rparr>"

definition mandatory_world :: world where
  "mandatory_world = \<lparr> Parse = (\<lambda>s. None), santactl_good = True,
     ExecuteProcess = (\<lambda>path args. Some \<lparr> std_output = kMandatoryRuleDeletionError,
        std_error = [], exit_code = 1 \<rparr>),
     rules_db = empty_db \<rparr>"

definition failing_world :: world where
  "failing_world = \<lparr> Parse = (\<lambda>s. None), santactl_good = True,
     ExecuteProcess = (\<lambda>path args. Some \<lparr> std_output = ''Invalid argument'',
        std_error = [], exit_code = 1 \<rparr>),
     rules_db = empty_db \<rparr>"

definition one_rule :: PrivateData where
  "one_rule = \<lparr> rowid_to_pkey = [(0, ''abc_binary'')],
     rule_list = [(''abc_binary'', \<lparr> rule_type = Binary, rule_state = Blacklist,
        rule_identifier = ''abc'', custom_message = [] \<rparr>)],
     generator = 1 \<rparr>"

definition unknown_rule :: PrivateData where
  "unknown_rule = \<lparr> rowid_to_pkey = [(0, ''abc_unknown'')],
     rule_list = [(''abc_unknown'', \<lparr> rule_type = UnknownType, rule_state = Blacklist,
        rule_identifier = ''abc'', custom_message = [] \<rparr>)],
     generator = 1 \<rparr>"

definition query_error_db :: rule_db where
  "query_error_db = \<lparr> src_is_open = True, dst_is_open = True, sqlite3_open_rc = 0, schema_rc = 0,
     schema_columns = [''identifier'', ''state'', ''type''],
     sqlite3_exec = (\<lambda>q. ([], 1)), sqlite3_close_rc = 0 \<rparr>"

definition short_certificate :: jvalue where
  "short_certificate = JArray [JString ''ab'', JString ''allow'', JString ''certificate'', JNull]"

definition bad_binary :: jvalue where
  "bad_binary = JArray [JString ''ZZZZ'', JString ''allow'', JString ''binary'', JNull]"

definition certificate_payload :: string where
  \<open>certificate_payload = ''["ab","allow","certificate",null]''\<close>

definition binary_payload :: string where
  \<open>binary_payload = ''["ZZZZ","allow","binary",null]''\<close>

definition adding_world :: world where
  "adding_world = \<lparr> Parse = (\<lambda>s. if s = certificate_payload then Some short_certificate
        else if s = binary_payload then Some bad_binary else None),
     santactl_good = True,
     ExecuteProcess = (\<lambda>path args. Some \<lparr> std_output = [], std_error = [], exit_code = 0 \<rparr>),
     rules_db = empty_db \<rparr>"

definition allow_line :: string where
  "allow_line = ''[t1] santad: decision=ALLOW|path=/a''"

definition deny_line :: string where
  "deny_line = ''[t2] santad: decision=DENY|path=/d''"

definition one_archive :: log_files where
  "one_archive = \<lparr> live_log = Some [], archives = [Gz [allow_line, deny_line]] \<rparr>"

definition fresh_state :: log_state where
  "fresh_state = \<lparr> archived_lines = [], next_oldest_archive = 0 \<rparr>"

definition cached_state :: log_state where
  "cached_state = \<lparr> archived_lines = [allow_line], next_oldest_archive = 1 \<rparr>"

section \<open>Properties of the rule identity map\<close>

lemma um_insert_set:
  "set (um_insert k v m) = (if k \<in> fst ` set m then set m else insert (k, v) (set m))"
  by (auto simp: um_insert_def map_of_eq_None_iff split: option.splits dest: map_of_SomeD)
     (metis domI domIff map_of_eq_None_iff)+

lemma um_insert_distinct:
  "distinct (map fst m) \<Longrightarrow> distinct (map fst (um_insert k v m))"
  by (auto simp: um_insert_def map_of_eq_None_iff split: option.splits)

lemma find_pkey_Some:
  "find (\<lambda>p. k = snd p) old = Some it \<Longrightarrow> it \<in> set old \<and> snd it = k"
  by (auto simp: find_Some_iff)

lemma find_pkey_None:
  "find (\<lambda>p. k = snd p) old = None \<longleftrightarrow> k \<notin> snd ` set old"
  by (force simp: find_None_iff image_iff)

lemma step_rowids:
  "set (rowid_to_pkey (updateRules_step old r d)) =
     (let k = generatePrimaryKey r;
          rid = (case find (\<lambda>p. k = snd p) old of None \<Rightarrow> generator d | Some it \<Rightarrow> fst it)
      in if rid \<in> fst ` set (rowid_to_pkey d) then set (rowid_to_pkey d)
         else insert (rid, k) (set (rowid_to_pkey d)))"
  by (simp add: updateRules_step_def Let_def generateRowID_def um_insert_set split: option.splits)

lemma step_generator:
  "generator (updateRules_step old r d) =
     (if generatePrimaryKey r \<in> snd ` set old then generator d else generator d + 1)"
  by (auto simp: updateRules_step_def Let_def generateRowID_def find_pkey_None[symmetric] split: option.splits)

lemma word_less_succ: "unat (g::RowID) + 1 < 2 ^ 32 \<Longrightarrow> g < g + 1"
  by (simp add: word_less_nat_alt unat_word_ariths)


lemma word_succ_unat: "unat (g::RowID) + 1 < 2 ^ 32 \<Longrightarrow> unat (g + 1) = unat g + 1"
  by (simp add: unat_word_ariths)


lemma new_keys_Cons: "new_keys old (r # rs) = new_keys old [r] + new_keys old rs"
  by (simp add: new_keys_def)

lemma new_keys_one:
  "new_keys old [r] = (if generatePrimaryKey r \<in> snd ` set old then 0 else 1)"
  by (simp add: new_keys_def)


lemma step_generator_eq:
  "unat (generator d) + new_keys old [r] < 2 ^ 32 \<Longrightarrow>
   generator d \<le> generator (updateRules_step old r d) \<and>
   unat (generator (updateRules_step old r d)) = unat (generator d) + new_keys old [r]"
  using word_less_succ [of "generator d"] word_succ_unat [of "generator d"]
  by (auto simp: step_generator new_keys_one less_imp_le)

lemma step_inv:
  assumes inv: "loop_inv old g0 d"
    and old: "list_all (\<lambda>e. fst e < g0) old"
    and room: "unat (generator d) + new_keys old [r] < 2 ^ 32"
  shows "loop_inv old g0 (updateRules_step old r d)"
proof (cases "find (\<lambda>p. generatePrimaryKey r = snd p) old")
  case None
  let ?k = "generatePrimaryKey r"
  have fresh: "generator d \<notin> fst ` set (rowid_to_pkey d)"
    using inv by (auto simp: loop_inv_def list_all_iff)
  have gen: "generator (updateRules_step old r d) = generator d + 1"
    using None by (simp add: step_generator find_pkey_None)
  have rows: "set (rowid_to_pkey (updateRules_step old r d)) =
      insert (generator d, ?k) (set (rowid_to_pkey d))"
    using None fresh by (simp add: step_rowids)
  have "generatePrimaryKey r \<notin> snd ` set old"
    using None by (simp add: find_pkey_None)
  then have "unat (generator d) + 1 < 2 ^ 32"
    using room by (simp add: new_keys_one)
  then have lt: "generator d < generator d + 1"
    by (rule word_less_succ)
  have dist: "distinct (map fst (rowid_to_pkey (updateRules_step old r d)))"
    using inv by (simp add: updateRules_step_def Let_def loop_inv_def um_insert_distinct split: prod.splits)
  show ?thesis
    using inv None lt dist
    by (auto simp: loop_inv_def list_all_iff rows gen entry_ok_def)
next
  case (Some it)
  let ?k = "generatePrimaryKey r"
  have it: "it \<in> set old" "snd it = ?k"
    using find_pkey_Some [OF Some] by auto
  have gen: "generator (updateRules_step old r d) = generator d"
    using it by (force simp: step_generator)
  have rows: "set (rowid_to_pkey (updateRules_step old r d)) = set (rowid_to_pkey d) \<or>
      set (rowid_to_pkey (updateRules_step old r d)) = insert (fst it, ?k) (set (rowid_to_pkey d))"
    using Some by (simp add: step_rowids Let_def)
  have small: "fst it < g0"
    using old it by (auto simp: list_all_iff)
  have dist: "distinct (map fst (rowid_to_pkey (updateRules_step old r d)))"
    using inv by (simp add: updateRules_step_def Let_def loop_inv_def um_insert_distinct split: prod.splits)
  show ?thesis
    using inv Some small dist rows
    by (auto simp: loop_inv_def list_all_iff gen entry_ok_def)
qed

lemma step_mono:
  "set (rowid_to_pkey d) \<subseteq> set (rowid_to_pkey (updateRules_step old r d))"
  by (auto simp: step_rowids Let_def)

lemma step_keys:
  "(rid, k) \<in> set (rowid_to_pkey (updateRules_step old r d)) \<Longrightarrow>
   (rid, k) \<in> set (rowid_to_pkey d) \<or> k = generatePrimaryKey r"
  by (auto simp: step_rowids Let_def split: if_splits)

lemma step_present:
  assumes inv: "loop_inv old g0 d"
    and old: "list_all (\<lambda>e. fst e < g0) old"
    and dist: "distinct (map fst old)"
  shows "\<exists>rid. (rid, generatePrimaryKey r) \<in> set (rowid_to_pkey (updateRules_step old r d))"
proof (cases "find (\<lambda>p. generatePrimaryKey r = snd p) old")
  case None
  have fresh: "generator d \<notin> fst ` set (rowid_to_pkey d)"
    using inv by (auto simp: loop_inv_def list_all_iff)
  show ?thesis using None fresh by (auto simp: step_rowids)
next
  case (Some it)
  let ?k = "generatePrimaryKey r"
  have it: "it \<in> set old" "snd it = ?k"
    using find_pkey_Some [OF Some] by auto
  show ?thesis
  proof (cases "fst it \<in> fst ` set (rowid_to_pkey d)")
    case False
    then show ?thesis using Some by (auto simp: step_rowids)
  next
    case True
    then obtain k' where e: "(fst it, k') \<in> set (rowid_to_pkey d)" by force
    have ok: "entry_ok old g0 (fst it, k')"
      using inv e by (auto simp: loop_inv_def list_all_iff)
    have small: "fst it < g0"
      using old it by (auto simp: list_all_iff)
    have "k' = ?k"
    proof (cases "find (\<lambda>p. k' = snd p) old")
      case None
      then show ?thesis using ok small by (simp add: entry_ok_def)
    next
      case (Some it')
      then have it': "it' \<in> set old" "snd it' = k'" "fst it' = fst it"
        using find_pkey_Some [OF Some] ok by (auto simp: entry_ok_def)
      have "it' = it"
        using dist it'(1,3) it(1) by (metis eq_key_imp_eq_value prod.collapse)
      then show ?thesis using it' it by simp
    qed
    then show ?thesis using e step_mono [of d old r] by auto
  qed
qed

lemma loop_generator_eq:
  "unat (generator d) + new_keys old rs < 2 ^ 32 \<Longrightarrow>
   generator d \<le> generator (updateRules_loop old rs d) \<and>
   unat (generator (updateRules_loop old rs d)) = unat (generator d) + new_keys old rs"
proof (induction rs arbitrary: d)
  case Nil
  then show ?case by (simp add: new_keys_def)
next
  case (Cons r rs)
  have s: "generator d \<le> generator (updateRules_step old r d)"
      "unat (generator (updateRules_step old r d)) = unat (generator d) + new_keys old [r]"
    using step_generator_eq [of d old r] Cons.prems by (auto simp: new_keys_Cons [of old r rs])
  have "unat (generator (updateRules_step old r d)) + new_keys old rs < 2 ^ 32"
    using s Cons.prems by (simp add: new_keys_Cons [of old r rs])
  from Cons.IH [OF this] s show ?case by (auto simp: new_keys_Cons [of old r rs])
qed

lemma loop_inv_all:
  assumes old: "list_all (\<lambda>e. fst e < g0) old"
  shows "loop_inv old g0 d \<Longrightarrow> unat (generator d) + new_keys old rs < 2 ^ 32 \<Longrightarrow>
     loop_inv old g0 (updateRules_loop old rs d)"
proof (induction rs arbitrary: d)
  case Nil
  then show ?case by simp
next
  case (Cons r rs)
  have r1: "unat (generator d) + new_keys old [r] < 2 ^ 32"
    using Cons.prems by (simp add: new_keys_Cons [of old r rs])
  have i: "loop_inv old g0 (updateRules_step old r d)"
    using Cons.prems(1) old r1 by (intro step_inv)
  have "unat (generator (updateRules_step old r d)) + new_keys old rs < 2 ^ 32"
    using step_generator_eq [OF r1] Cons.prems by (simp add: new_keys_Cons [of old r rs])
  with Cons.IH i show ?case by simp
qed

lemma loop_mono:
  "set (rowid_to_pkey d) \<subseteq> set (rowid_to_pkey (updateRules_loop old rs d))"
proof (induction rs arbitrary: d)
  case Nil
  then show ?case by simp
next
  case (Cons r rs)
  then show ?case using step_mono [of d old r] by force
qed

lemma loop_keys:
  "(rid, k) \<in> set (rowid_to_pkey (updateRules_loop old rs d)) \<Longrightarrow>
   (rid, k) \<in> set (rowid_to_pkey d) \<or> k \<in> generatePrimaryKey ` set rs"
proof (induction rs arbitrary: d)
  case Nil
  then show ?case by simp
next
  case (Cons r rs)
  then show ?case using step_keys [of rid k old r d] by force
qed

lemma loop_present:
  assumes old: "list_all (\<lambda>e. fst e < g0) old" and dist: "distinct (map fst old)"
  shows "loop_inv old g0 d \<Longrightarrow> unat (generator d) + new_keys old rs < 2 ^ 32 \<Longrightarrow> r \<in> set rs \<Longrightarrow>
     \<exists>rid. (rid, generatePrimaryKey r) \<in> set (rowid_to_pkey (updateRules_loop old rs d))"
proof (induction rs arbitrary: d)
  case Nil
  then show ?case by simp
next
  case (Cons x rs)
  have r1: "unat (generator d) + new_keys old [x] < 2 ^ 32"
    using Cons.prems by (simp add: new_keys_Cons [of old x rs])
  have i: "loop_inv old g0 (updateRules_step old x d)"
    using Cons.prems(1) old r1 by (intro step_inv)
  have g: "unat (generator (updateRules_step old x d)) + new_keys old rs < 2 ^ 32"
    using step_generator_eq [OF r1] Cons.prems by (simp add: new_keys_Cons [of old x rs])
  show ?case
  proof (cases "r = x")
    case True
    from step_present [OF Cons.prems(1) old dist, of x]
    obtain rid where "(rid, generatePrimaryKey x) \<in> set (rowid_to_pkey (updateRules_step old x d))"
      by blast
    then show ?thesis
      using True loop_mono [of "updateRules_step old x d" old rs] by auto
  next
    case False
    then have "r \<in> set rs" using Cons.prems by simp
    from Cons.IH [OF i g this] show ?thesis by simp
  qed
qed

lemma example_collect: "collectSantaRules example_db = Inr (True, example_rules)"
  by (simp add: collectSantaRules_def example_db_def example_rules_def SQLITE_OK_def
      rulesCallback_def atoi_def scan_number_def isspace_def isdigit_def decimal_value_def
      digit_value_def type_of_value_def)

lemma wrap_collect:
  "collectSantaRules wrap_db = Inr (True, [binary_rule ''a'', binary_rule ''b'', binary_rule ''c''])"
  by (simp add: collectSantaRules_def wrap_db_def binary_rule_def SQLITE_OK_def
      rulesCallback_def atoi_def scan_number_def isspace_def isdigit_def decimal_value_def
      digit_value_def type_of_value_def)

text \<open>
  Claim C1 fails as stated: the counter is an unsigned 32-bit integer and wraps.  With the
  counter at its last value, one rule held under rowid 0 and two new rules collected after
  it, the refresh succeeds; the second new rule is given rowid 0 again, which the mapping
  under construction already holds, so its primary key is in no entry of the new mapping.
\<close>

theorem updateRules_rowids_counterexample:
  "collectSantaRules wrap_db = Inr (True, [binary_rule ''a'', binary_rule ''b'', binary_rule ''c'']) \<and>
   updateRules wrap_db wrap_start = Inr (Status 0 ''OK'', wrap_after) \<and>
   generatePrimaryKey (binary_rule ''c'') = ''c_binary'' \<and>
   ''c_binary'' \<notin> snd ` set (rowid_to_pkey wrap_start) \<and>
   ''c_binary'' \<notin> snd ` set (rowid_to_pkey wrap_after)"
  by (simp add: updateRules_def wrap_collect wrap_start_def wrap_after_def
      updateRules_step_def generateRowID_def um_insert_def generatePrimaryKey_def
      generatePrimaryKey2_def binary_rule_def Let_def)

text \<open>
  Claim C1, amended.  A refresh that succeeds, from a state in which the rowids of the mapping
  are below the counter (it has not wrapped) and in which the counter does not wrap while
  giving a rowid to each collected rule whose key the mapping does not hold: a primary key
  of a collected rule that the previous mapping held keeps a rowid it had there, and that
  rowid only; a primary key the previous mapping did not hold gets rowids taken from the
  counter during this refresh, none of them in the previous mapping; every entry of the new
  mapping belongs to a collected rule; the counter has advanced by the number of rowids
  given, and the rowids of the new mapping are again distinct and below it.
\<close>

theorem updateRules_rowids:
  assumes collected: "collectSantaRules db = Inr (True, rules)"
    and keys: "distinct (map fst (rowid_to_pkey d))"
    and below: "list_all (\<lambda>e. fst e < generator d) (rowid_to_pkey d)"
    and room: "unat (generator d) + new_keys (rowid_to_pkey d) rules < 2 ^ 32"
  shows "\<exists>d'. updateRules db d = Inr (Status 0 ''OK'', d') \<and>
      (\<forall>r \<in> set rules. generatePrimaryKey r \<in> snd ` set (rowid_to_pkey d) \<longrightarrow>
         (\<exists>rid. (rid, generatePrimaryKey r) \<in> set (rowid_to_pkey d) \<and>
            (\<forall>rid'. (rid', generatePrimaryKey r) \<in> set (rowid_to_pkey d') \<longleftrightarrow> rid' = rid))) \<and>
      (\<forall>r \<in> set rules. generatePrimaryKey r \<notin> snd ` set (rowid_to_pkey d) \<longrightarrow>
         (\<exists>rid. (rid, generatePrimaryKey r) \<in> set (rowid_to_pkey d')) \<and>
         (\<forall>rid. (rid, generatePrimaryKey r) \<in> set (rowid_to_pkey d') \<longrightarrow>
            generator d \<le> rid \<and> rid < generator d' \<and> rid \<notin> fst ` set (rowid_to_pkey d))) \<and>
      (\<forall>e \<in> set (rowid_to_pkey d'). snd e \<in> generatePrimaryKey ` set rules) \<and>
      distinct (map fst (rowid_to_pkey d')) \<and>
      list_all (\<lambda>e. fst e < generator d') (rowid_to_pkey d') \<and>
      unat (generator d') = unat (generator d) + new_keys (rowid_to_pkey d) rules"
proof -
  let ?old = "rowid_to_pkey d"
  let ?d0 = "d\<lparr> rowid_to_pkey := [], rule_list := [] \<rparr>"
  let ?d' = "updateRules_loop ?old rules ?d0"
  have run: "updateRules db d = Inr (Status 0 ''OK'', ?d')"
    using collected by (simp add: updateRules_def)
  have inv0: "loop_inv ?old (generator d) ?d0"
    by (simp add: loop_inv_def)
  have room0: "unat (generator ?d0) + new_keys ?old rules < 2 ^ 32"
    using room by simp
  have inv: "loop_inv ?old (generator d) ?d'"
    by (rule loop_inv_all [OF below inv0 room0])
  have gen: "unat (generator ?d') = unat (generator d) + new_keys ?old rules"
    using loop_generator_eq [OF room0] by simp
  have ok: "entry_ok ?old (generator d) e" and lt: "fst e < generator ?d'"
    if "e \<in> set (rowid_to_pkey ?d')" for e
    using inv that by (auto simp: loop_inv_def list_all_iff)
  have present: "\<exists>rid. (rid, generatePrimaryKey r) \<in> set (rowid_to_pkey ?d')"
    if "r \<in> set rules" for r
    by (rule loop_present [OF below keys inv0 room0 that])
  have kept: "\<exists>rid. (rid, generatePrimaryKey r) \<in> set ?old \<and>
      (\<forall>rid'. (rid', generatePrimaryKey r) \<in> set (rowid_to_pkey ?d') \<longleftrightarrow> rid' = rid)"
    if r: "r \<in> set rules" and old: "generatePrimaryKey r \<in> snd ` set ?old" for r
  proof -
    let ?k = "generatePrimaryKey r"
    from old obtain it where f: "find (\<lambda>p. ?k = snd p) ?old = Some it"
      using find_pkey_None [of ?k ?old] by (cases "find (\<lambda>p. ?k = snd p) ?old") auto
    then have it: "it \<in> set ?old" "snd it = ?k"
      using find_pkey_Some [OF f] by auto
    have only: "rid' = fst it" if "(rid', ?k) \<in> set (rowid_to_pkey ?d')" for rid'
      using ok [OF that] f by (simp add: entry_ok_def)
    from present [OF r] obtain rid0 where "(rid0, ?k) \<in> set (rowid_to_pkey ?d')" by blast
    with only have "(fst it, ?k) \<in> set (rowid_to_pkey ?d')" by auto
    moreover have "(fst it, ?k) \<in> set ?old" using it by (metis prod.collapse)
    ultimately show ?thesis using only by blast
  qed
  have fresh: "generator d \<le> rid \<and> rid < generator ?d' \<and> rid \<notin> fst ` set ?old"
    if new: "generatePrimaryKey r \<notin> snd ` set ?old"
      and e: "(rid, generatePrimaryKey r) \<in> set (rowid_to_pkey ?d')" for r rid
  proof -
    have "find (\<lambda>p. generatePrimaryKey r = snd p) ?old = None"
      using new by (simp add: find_pkey_None)
    then have "generator d \<le> rid" using ok [OF e] by (simp add: entry_ok_def)
    moreover have "rid < generator ?d'" using lt [OF e] by simp
    moreover have "rid \<notin> fst ` set ?old"
      using below \<open>generator d \<le> rid\<close> by (auto simp: list_all_iff)
    ultimately show ?thesis by simp
  qed
  have absent: "snd e \<in> generatePrimaryKey ` set rules" if "e \<in> set (rowid_to_pkey ?d')" for e
    using loop_keys [of "fst e" "snd e" ?old rules ?d0] that by simp
  have dist: "distinct (map fst (rowid_to_pkey ?d'))"
    and bel: "list_all (\<lambda>e. fst e < generator ?d') (rowid_to_pkey ?d')"
    using inv by (simp_all add: loop_inv_def)
  show ?thesis
    using run kept present fresh absent dist bel gen by (intro exI [of _ ?d']) blast
qed

theorem updateRules_rowids_witness:
  "collectSantaRules example_db = Inr (True, example_rules) \<and>
   distinct (map fst (rowid_to_pkey example_data)) \<and>
   list_all (\<lambda>e. fst e < generator example_data) (rowid_to_pkey example_data) \<and>
   unat (generator example_data) + new_keys (rowid_to_pkey example_data) example_rules < 2 ^ 32 \<and>
   (\<exists>d'. updateRules example_db example_data = Inr (Status 0 ''OK'', d') \<and>
      distinct (map fst (rowid_to_pkey d')) \<and> unat (generator d') = 5)"
proof -
  have h1: "collectSantaRules example_db = Inr (True, example_rules)"
    by (rule example_collect)
  have h2: "distinct (map fst (rowid_to_pkey example_data))"
    by (simp add: example_data_def)
  have h3: "list_all (\<lambda>e. fst e < generator example_data) (rowid_to_pkey example_data)"
    by (simp add: example_data_def)
  have n: "new_keys (rowid_to_pkey example_data) example_rules = 1"
    by (simp add: new_keys_def example_data_def example_rules_def generatePrimaryKey_def
        generatePrimaryKey2_def)
  have h4: "unat (generator example_data) + new_keys (rowid_to_pkey example_data) example_rules < 2 ^ 32"
    unfolding n by (simp add: example_data_def)
  have g: "unat (generator example_data) + new_keys (rowid_to_pkey example_data) example_rules = 5"
    unfolding n by (simp add: example_data_def)
  from updateRules_rowids [OF h1 h2 h3 h4] h1 h2 h3 h4 g show ?thesis
    by auto
qed

subsection \<open>A database with two rows of one primary key\<close>










section \<open>Properties of rule collection\<close>

lemma empty_collect: "collectSantaRules empty_db = Inr (True, [])"
  by (simp add: collectSantaRules_def empty_db_def SQLITE_OK_def)

text \<open>
  Once the schema has been read, the answer of \<open>collectSantaRules\<close> is that of
  \<open>sqlite3_close\<close>, whatever code the rules query returned.
\<close>

lemma collect_ignores_query_code:
  assumes "src_is_open db" "dst_is_open db" "sqlite3_open_rc db = SQLITE_OK" "schema_rc db = SQLITE_OK"
    and "''identifier'' \<in> set (schema_columns db)"
    and "sqlite3_exec db ''SELECT identifier, state, type, custommsg FROM rules;'' = (rows, rc)"
    and "run_callback [] rows = Inr response"
  shows "collectSantaRules db = Inr (sqlite3_close_rc db = SQLITE_OK, response)"
  using assms by (simp add: collectSantaRules_def Let_def)

text \<open>
  Claim C5, at a failing input.  The rules query returns an error (code 1, no row) and
  \<open>sqlite3_close\<close> succeeds: \<open>collectSantaRules\<close> reports success with an empty rule
  list, and \<open>updateRules\<close> replaces the rule held before by the empty table.
\<close>

theorem query_error_reported_as_success:
  "snd (sqlite3_exec query_error_db ''SELECT identifier, state, type, custommsg FROM rules;'') \<noteq> SQLITE_OK \<and>
   collectSantaRules query_error_db = Inr (True, []) \<and>
   updateRules query_error_db one_rule =
     Inr (Status 0 ''OK'', \<lparr> rowid_to_pkey = [], rule_list = [], generator = 1 \<rparr>)"
  by (simp add: collectSantaRules_def updateRules_def query_error_db_def SQLITE_OK_def one_rule_def)

text \<open>
  Claim C7, at a failing input.  A row whose state column is 10 becomes a rule in the allow
  state: the callback looks at the first character of the state only.
\<close>

theorem state_ten_is_allow:
  "rulesCallback [] [Some ''abc'', Some ''10'', Some ''1000'', None] =
     Inr [\<lparr> rule_type = Binary, rule_state = Whitelist, rule_identifier = ''abc'',
            custom_message = [] \<rparr>]"
  by (simp add: rulesCallback_def atoi_def scan_number_def isspace_def isdigit_def decimal_value_def
      digit_value_def type_of_value_def)

section \<open>Properties of insert\<close>

lemma payloads_differ: "binary_payload \<noteq> certificate_payload"
  by (simp add: binary_payload_def certificate_payload_def)

lemma short_certificate_row:
  "GetRowData (Some short_certificate) =
     Inr (Status 0 ''OK'', [''custom_message'' \<mapsto> [], ''identifier'' \<mapsto> ''ab'',
        ''type'' \<mapsto> ''certificate'', ''state'' \<mapsto> ''allow''])"
  by (simp add: GetRowData_def short_certificate_def identifier_error_def hex_only_def c_str_def)

text \<open>
  Claim C6 fails as stated: a certificate identifier of two characters passes
  \<open>GetRowData\<close>, and insert runs the external command with it.
\<close>

theorem short_certificate_accepted:
  "length ''ab'' \<noteq> 64 \<and>
   GetRowData (Some short_certificate) =
     Inr (Status 0 ''OK'', [''custom_message'' \<mapsto> [], ''identifier'' \<mapsto> ''ab'',
        ''type'' \<mapsto> ''certificate'', ''state'' \<mapsto> ''allow'']) \<and>
   Parse adding_world certificate_payload = Some short_certificate \<and>
   ran (insert_row adding_world [''json_value_array'' \<mapsto> certificate_payload] one_rule) =
     [(''/usr/local/bin/santactl'', [''rule'', ''--allow'', ''--identifier'', ''ab'', ''--certificate''])]"
  by (simp add: short_certificate_row insert_row_def adding_world_def row_get_def type_arguments_def
      updateRules_def empty_collect ran_def kSantactlPath_def Let_def split: prod.splits option.splits)

lemma insert_rejected:
  assumes "request ''json_value_array'' = Some js"
    and "GetRowData (Parse w js) = Inr (status, row)"
    and "\<not> ok status"
  shows "insert_row w request d = Inr (failure, d, [])"
  using assms by (simp add: insert_row_def)

lemma insert_fault:
  assumes "request ''json_value_array'' = Some js"
    and "GetRowData (Parse w js) = Inl f"
  shows "insert_row w request d = Inl f"
  using assms by (simp add: insert_row_def)

lemma identifier_error_valid:
  "identifier_error ty ident = None \<longleftrightarrow> identifier_valid ty ident"
  by (simp add: identifier_error_def identifier_valid_def)

lemma GetRowData_strings:
  assumes "msg = JNull \<or> msg = JString m"
  shows "accepted (Some (JArray [JString ident, JString st, JString ty, msg])) \<longleftrightarrow>
     identifier_valid (c_str ty) (c_str ident) \<and> state_valid (c_str st)"
proof (cases "identifier_error (c_str ty) (c_str ident)")
  case None
  with assms show ?thesis
    by (auto simp: accepted_def GetRowData_def state_valid_def identifier_error_valid [symmetric]
        Let_def)
next
  case (Some e)
  with assms show ?thesis
    by (auto simp: accepted_def GetRowData_def identifier_error_valid [symmetric] Let_def)
qed

text \<open>
  Claim C6, amended.  A payload that \<open>GetRowData\<close> does not accept runs no external
  command, and when \<open>GetRowData\<close> answers with a status, insert returns the failure row and
  leaves the state as it was.  For a payload of strings (the message may be null) acceptance
  is: a binary identifier is 64 lowercase hexadecimal characters, a certificate or cdhash
  identifier consists of lowercase hexadecimal characters (of any number), a signingid
  identifier contains a colon, a teamid identifier is not empty, no other type is accepted,
  and the state is one of whitelist, blacklist, allow, block.
\<close>

theorem insert_validation:
  assumes "request ''json_value_array'' = Some js"
  shows "(\<not> accepted (Parse w js) \<longrightarrow>
            ran (insert_row w request d) = [] \<and>
            (\<forall>status row. GetRowData (Parse w js) = Inr (status, row) \<longrightarrow>
               insert_row w request d = Inr (failure, d, []))) \<and>
         (Parse w js = Some (JArray [JString ident, JString st, JString ty, msg]) \<and>
            (msg = JNull \<or> msg = JString m) \<longrightarrow>
            accepted (Parse w js) = (identifier_valid (c_str ty) (c_str ident) \<and> state_valid (c_str st)))"
proof (rule conjI)
  show "\<not> accepted (Parse w js) \<longrightarrow>
      ran (insert_row w request d) = [] \<and>
      (\<forall>status row. GetRowData (Parse w js) = Inr (status, row) \<longrightarrow>
         insert_row w request d = Inr (failure, d, []))"
  proof (rule impI)
    assume na: "\<not> accepted (Parse w js)"
    show "ran (insert_row w request d) = [] \<and>
        (\<forall>status row. GetRowData (Parse w js) = Inr (status, row) \<longrightarrow>
           insert_row w request d = Inr (failure, d, []))"
    proof (cases "GetRowData (Parse w js)")
      case (Inl f)
      then show ?thesis
        using insert_fault [of request js w f d] assms by (simp add: ran_def)
    next
      case (Inr p)
      obtain status row where p: "p = (status, row)" by (cases p)
      have "\<not> ok status" using na Inr p by (simp add: accepted_def)
      with insert_rejected [of request js w status row d] assms Inr p show ?thesis
        by (simp add: ran_def)
    qed
  qed
  show "Parse w js = Some (JArray [JString ident, JString st, JString ty, msg]) \<and>
      (msg = JNull \<or> msg = JString m) \<longrightarrow>
      accepted (Parse w js) = (identifier_valid (c_str ty) (c_str ident) \<and> state_valid (c_str st))"
    using GetRowData_strings [of msg m ident st ty] by auto
qed

theorem insert_validation_witness:
  "\<not> accepted (Parse adding_world binary_payload) \<and>
   ran (insert_row adding_world [''json_value_array'' \<mapsto> binary_payload] one_rule) = [] \<and>
   accepted (Parse adding_world certificate_payload)"
proof -
  have r: "[''json_value_array'' \<mapsto> binary_payload] ''json_value_array'' = Some binary_payload"
    "[''json_value_array'' \<mapsto> certificate_payload] ''json_value_array'' = Some certificate_payload"
    by simp_all
  have bad: "Parse adding_world binary_payload =
      Some (JArray [JString ''ZZZZ'', JString ''allow'', JString ''binary'', JNull])"
    and good: "Parse adding_world certificate_payload =
      Some (JArray [JString ''ab'', JString ''allow'', JString ''certificate'', JNull])"
    by (simp_all add: adding_world_def bad_binary_def short_certificate_def payloads_differ)
  have v1: "\<not> identifier_valid (c_str ''binary'') (c_str ''ZZZZ'')"
    and v2: "identifier_valid (c_str ''certificate'') (c_str ''ab'') \<and> state_valid (c_str ''allow'')"
    by (simp_all add: identifier_valid_def state_valid_def c_str_def hex_only_def)
  from insert_validation [of "[''json_value_array'' \<mapsto> binary_payload]" binary_payload
      adding_world one_rule "''ZZZZ''" "''allow''" "''binary''" JNull "[]"]
    insert_validation [of "[''json_value_array'' \<mapsto> certificate_payload]" certificate_payload
      adding_world one_rule "''ab''" "''allow''" "''certificate''" JNull "[]"]
    r bad good v1 v2
  show ?thesis by simp
qed

section \<open>Properties of delete\<close>

lemma strtoull_empty: "strtoull (c_str []) = (0, [])"
  by (simp add: strtoull_def c_str_def scan_number_def decimal_value_def)

lemma strtoull_zero: "strtoull (c_str ''0'') = (0, [])"
  by (simp add: strtoull_def c_str_def scan_number_def decimal_value_def isspace_def isdigit_def
      digit_value_def)

text \<open>
  An id that \<open>strtoull\<close> does not read to its end, and an id whose rowid is not in the
  mapping, are refused before any command is run.
\<close>

lemma delete_trailing_characters:
  assumes "request ''id'' = Some id_arg"
    and "strtoull (c_str id_arg) = (n, rest)"
    and "rest \<noteq> []"
  shows "delete_row w request d = Inr (failure, d, [])"
  using assms by (simp add: delete_row_def)

lemma delete_unknown_rowid:
  assumes "request ''id'' = Some id_arg"
    and "strtoull (c_str id_arg) = (n, [])"
    and "map_of (rowid_to_pkey d) (word_of_nat n) = None"
  shows "delete_row w request d = Inr (failure, d, [])"
  using assms by (simp add: delete_row_def)

text \<open>
  Claim C8, at a failing input.  The empty id string is not an unsigned integer, yet
  \<open>strtoull\<close> converts nothing, leaves its end pointer at the terminator and returns 0:
  delete takes it for rowid 0 and runs the removal command for the rule with that rowid.
\<close>

theorem delete_empty_id:
  "reply (delete_row removing_world [''id'' \<mapsto> ''''] one_rule) = Some [[''status'' \<mapsto> ''success'']] \<and>
   ran (delete_row removing_world [''id'' \<mapsto> ''''] one_rule) =
     [(''/usr/local/bin/santactl'', [''rule'', ''--remove'', ''--identifier'', ''abc''])]"
  by (simp add: delete_row_def strtoull_empty one_rule_def removal_arguments_def removing_world_def
      updateRules_def empty_collect reply_def ran_def kSantactlPath_def)

lemma str_find_zero: "str_find needle hay = Some 0 \<longleftrightarrow> prefix needle hay"
  by (cases hay) auto

text \<open>
  Claim C10.  A delete request whose id parses to the rowid of a rule of type Unknown
  returns the failure row, leaves the state as it was and runs no external command.
\<close>

theorem delete_unknown_type:
  assumes "request ''id'' = Some id_arg"
    and "strtoull (c_str id_arg) = (n, [])"
    and "map_of (rowid_to_pkey d) (word_of_nat n) = Some pkey"
    and "map_of (rule_list d) pkey = Some rule"
    and "rule_type rule = UnknownType"
  shows "reply (delete_row w request d) = Some [[''status'' \<mapsto> ''failure'']] \<and>
     ran (delete_row w request d) = [] \<and>
     (\<exists>t. delete_row w request d = Inr (failure, d, t))"
  using assms
  by (simp add: delete_row_def removal_arguments_def reply_def ran_def failure_def)

theorem delete_unknown_type_witness:
  "reply (delete_row removing_world [''id'' \<mapsto> ''0''] unknown_rule) = Some [[''status'' \<mapsto> ''failure'']] \<and>
   ran (delete_row removing_world [''id'' \<mapsto> ''0''] unknown_rule) = []"
  using delete_unknown_type [of "[''id'' \<mapsto> ''0'']" "''0''" 0 unknown_rule "''abc_unknown''"
      "\<lparr> rule_type = UnknownType, rule_state = Blacklist, rule_identifier = ''abc'',
         custom_message = [] \<rparr>" removing_world]
  by (simp add: strtoull_zero unknown_rule_def)

text \<open>
  Claim C9 fails as stated: the removal command fails once with an output that begins with
  the mandatory-rule message and once with another output, and the caller of delete receives
  the same row both times.
\<close>

theorem delete_mandatory_counterexample:
  "prefix kMandatoryRuleDeletionError
     (std_output (the (ExecuteProcess mandatory_world kSantactlPath [''rule'', ''--remove'', ''--identifier'', ''abc'']))) \<and>
   \<not> prefix kMandatoryRuleDeletionError
     (std_output (the (ExecuteProcess failing_world kSantactlPath [''rule'', ''--remove'', ''--identifier'', ''abc'']))) \<and>
   reply (delete_row mandatory_world [''id'' \<mapsto> ''0''] one_rule) = Some [[''status'' \<mapsto> ''failure'']] \<and>
   reply (delete_row failing_world [''id'' \<mapsto> ''0''] one_rule) = Some [[''status'' \<mapsto> ''failure'']]"
  by (simp add: delete_row_def strtoull_zero one_rule_def removal_arguments_def mandatory_world_def
      failing_world_def reply_def kMandatoryRuleDeletionError_def failure_def)

text \<open>
  Claim C9, amended.  When the removal command fails (\<open>ExecuteProcess\<close> returns false or
  the exit code is not 0), delete returns the bare failure row and leaves the state as it
  was, whatever the output; whether the output begins with the mandatory-rule message
  decides only which line is written to the verbose log after the command has run.
\<close>

theorem delete_command_failure:
  assumes "request ''id'' = Some id_arg"
    and "strtoull (c_str id_arg) = (n, [])"
    and "map_of (rowid_to_pkey d) (word_of_nat n) = Some pkey"
    and "map_of (rule_list d) pkey = Some rule"
    and "removal_arguments rule = Some type_args"
    and "ExecuteProcess w kSantactlPath ([''rule'', ''--remove''] @ type_args) = result"
    and "result = None \<or> (\<exists>out. result = Some out \<and> exit_code out \<noteq> 0)"
  shows "\<exists>t. delete_row w request d =
     Inr ([[''status'' \<mapsto> ''failure'']], d,
          t @ [Exec kSantactlPath ([''rule'', ''--remove''] @ type_args),
               if prefix kMandatoryRuleDeletionError
                    (case result of None \<Rightarrow> [] | Some out \<Rightarrow> std_output out)
               then Vlog (''Rule '' @ rule_identifier rule @ ''/'' @ getRuleTypeName (rule_type rule) @
                          '' is mandatory and can't be removed'')
               else Vlog ''Failed to remove the rule''])"
  using assms
  by (auto simp: delete_row_def failure_def str_find_zero Let_def)

theorem delete_command_failure_witness:
  "\<exists>t. delete_row mandatory_world [''id'' \<mapsto> ''0''] one_rule =
     Inr ([[''status'' \<mapsto> ''failure'']], one_rule,
          t @ [Exec kSantactlPath [''rule'', ''--remove'', ''--identifier'', ''abc''],
               Vlog ''Rule abc/binary is mandatory and can't be removed''])"
  using delete_command_failure [of "[''id'' \<mapsto> ''0'']" "''0''" 0 one_rule "''abc_binary''"
      "\<lparr> rule_type = Binary, rule_state = Blacklist, rule_identifier = ''abc'', custom_message = [] \<rparr>"
      "[''--identifier'', ''abc'']" mandatory_world
      "Some \<lparr> std_output = kMandatoryRuleDeletionError, std_error = [], exit_code = 1 \<rparr>"]
  by (simp add: strtoull_zero one_rule_def removal_arguments_def mandatory_world_def)

section \<open>Properties of the decision log\<close>

lemma allow_entry:
  "entry_of_line allow_line = \<lparr> timestamp = ''t1'', application = ''/a'', reason = [], sha256 = [] \<rparr>"
  by (simp add: entry_of_line_def allow_line_def extractValues_def find_char_def substr_def
      size_t_sub_def kLogEntryPreface_def emplace_def row_get_def)

lemma deny_entry:
  "entry_of_line deny_line = \<lparr> timestamp = ''t2'', application = ''/d'', reason = [], sha256 = [] \<rparr>"
  by (simp add: entry_of_line_def deny_line_def extractValues_def find_char_def substr_def
      size_t_sub_def kLogEntryPreface_def emplace_def row_get_def)

lemma matches:
  "line_matches kAllowed allow_line" "\<not> line_matches kDenied allow_line"
  "line_matches kDenied deny_line" "\<not> line_matches kAllowed deny_line"
  by (simp_all add: line_matches_def allow_line_def deny_line_def)

text \<open>
  Claim C2, at a failing input.  One archive holds an ALLOW line and a DENY line.  A read for
  the allowed class decodes it and caches the ALLOW line only; a later read for the denied
  class, with no new archive, replays that line as a denied event, where filtering the
  archive for the denied class gives the event of the DENY line.
\<close>

theorem replay_ignores_class:
  "scrapeSantaLog one_archive kAllowed fresh_state =
     (True, [\<lparr> timestamp = ''t1'', application = ''/a'', reason = [], sha256 = [] \<rparr>], cached_state) \<and>
   scrapeSantaLog one_archive kDenied cached_state =
     (True, [\<lparr> timestamp = ''t1'', application = ''/a'', reason = [], sha256 = [] \<rparr>], cached_state) \<and>
   events_of kDenied [allow_line, deny_line] =
     [\<lparr> timestamp = ''t2'', application = ''/d'', reason = [], sha256 = [] \<rparr>]"
  by (simp add: scrapeSantaLog_def scrapeCurrentLog_def newArchiveFileExists_def archive_at_def
      one_archive_def fresh_state_def cached_state_def scrapeCompressedSantaLog_def
      processArchivedLines_def events_of_def matches allow_entry deny_entry)





end
